theory Spec2Isabelle
  imports Complex_Main "HOL-Library.Monad_Syntax"
begin

section \<open>Data model\<close>

text \<open>
  The two calculators of the repository,
  \<^verbatim>\<open>hand-gesture-recognition-calculator.cc\<close> and
  \<^verbatim>\<open>hand-mouvement-recognition-calculator.cc\<close>, are embedded as HOL functions.

  Numbers. The C++ \<^verbatim>\<open>float\<close> values are modelled as mathematical reals: every
  arithmetic operation is exact, there is no rounding, no NaN, no infinity and no
  negative zero. Every statement below is a statement about this idealisation.

  Failures. \<^verbatim>\<open>RET_CHECK_GT(landmarkList.landmark_size(), 0)\<close> returns an error status
  to the framework; it is the constructor \<open>InputLandmarkVectorEmpty\<close>. The protobuf
  accessor \<^verbatim>\<open>landmarkList.landmark(i)\<close> is only defined for \<open>i < landmark_size()\<close>; a
  read outside that range returns no status (a debug build aborts on an assertion, a
  release build reads foreign memory). The model makes every such read a branch of its
  own, \<open>LandmarkIndexOutOfRange\<close>, and follows the short-circuit evaluation of
  \<^verbatim>\<open>&&\<close> so that exactly the reads the code performs are the reads of the model.
\<close>

datatype FingerState = UNKNOW | OPEN | CLOSE

record NormalizedLandmark =
  landmark_x :: real
  landmark_y :: real

record NormalizedRect =
  x_center :: real
  y_center :: real
  width :: real
  height :: real

datatype failure = InputLandmarkVectorEmpty | LandmarkIndexOutOfRange

text \<open>\<^verbatim>\<open>landmarkList.landmark(i)\<close>, with the out-of-range read made explicit.\<close>

definition landmark :: "NormalizedLandmark list \<Rightarrow> nat \<Rightarrow> NormalizedLandmark option" where
  "landmark landmarkList i =
     (if i < length landmarkList then Some (landmarkList ! i) else None)"

definition landmark_x_at :: "NormalizedLandmark list \<Rightarrow> nat \<Rightarrow> real option" where
  "landmark_x_at landmarkList i = map_option landmark_x (landmark landmarkList i)"

definition landmark_y_at :: "NormalizedLandmark list \<Rightarrow> nat \<Rightarrow> real option" where
  "landmark_y_at landmarkList i = map_option landmark_y (landmark landmarkList i)"

section \<open>Geometry helpers\<close>

definition get_Euclidean_DistanceAB :: "real \<Rightarrow> real \<Rightarrow> real \<Rightarrow> real \<Rightarrow> real" where
  "get_Euclidean_DistanceAB a_x a_y b_x b_y =
     (let dist = (a_x - b_x) ^ 2 + (a_y - b_y) ^ 2 in sqrt dist)"

definition isThumbNearFirstFinger :: "NormalizedLandmark \<Rightarrow> NormalizedLandmark \<Rightarrow> bool" where
  "isThumbNearFirstFinger point1 point2 =
     (let distance = get_Euclidean_DistanceAB (landmark_x point1) (landmark_y point1)
                       (landmark_x point2) (landmark_y point2)
      in distance < 0.1)"

section \<open>HandGestureRecognitionCalculator\<close>

definition threshold :: real where
  "threshold = 0.01"

definition closeFingerThreshold :: real where
  "closeFingerThreshold = 0.01"

text \<open>
  The C++ condition \<^verbatim>\<open>a && b\<close> where evaluating \<open>b\<close> reads a landmark: \<open>b\<close> is
  evaluated only when \<open>a\<close> holds.
\<close>

definition and_then :: "bool \<Rightarrow> bool option \<Rightarrow> bool option" where
  "and_then a b = (if a then b else Some False)"

text \<open>
  One finger's block of \<^verbatim>\<open>Process\<close> (the source repeats it five times, lines 111 to
  158): \<open>c\<close> reads the coordinate the finger uses, \<open>p\<close>, \<open>m\<close>, \<open>t\<close> are the three
  landmark indices in the order the source reads them.
\<close>

definition fingerState :: "(nat \<Rightarrow> real option) \<Rightarrow> nat \<Rightarrow> nat \<Rightarrow> nat \<Rightarrow> FingerState option" where
  "fingerState c p m t =
     do {
       pseudoFixKeyPoint \<leftarrow> c p;
       cm \<leftarrow> c m;
       is_open \<leftarrow> and_then (cm + threshold < pseudoFixKeyPoint)
                   (do { ct \<leftarrow> c t; Some (ct + threshold < cm) });
       if is_open then Some OPEN
       else do {
         is_close \<leftarrow> and_then (pseudoFixKeyPoint + closeFingerThreshold < cm)
                      (do { ct \<leftarrow> c t; Some (cm + closeFingerThreshold < ct) });
         Some (if is_close then CLOSE else UNKNOW)
       }
     }"

definition thumbState :: "NormalizedLandmark list \<Rightarrow> FingerState option" where
  "thumbState landmarkList = fingerState (landmark_x_at landmarkList) 2 3 4"

definition firstFingerState :: "NormalizedLandmark list \<Rightarrow> FingerState option" where
  "firstFingerState landmarkList = fingerState (landmark_y_at landmarkList) 6 7 8"

definition secondFingerState :: "NormalizedLandmark list \<Rightarrow> FingerState option" where
  "secondFingerState landmarkList = fingerState (landmark_y_at landmarkList) 10 11 12"

definition thirdFingerState :: "NormalizedLandmark list \<Rightarrow> FingerState option" where
  "thirdFingerState landmarkList = fingerState (landmark_y_at landmarkList) 14 15 16"

definition fourthFingerState :: "NormalizedLandmark list \<Rightarrow> FingerState option" where
  "fourthFingerState landmarkList = fingerState (landmark_y_at landmarkList) 18 19 20"

text \<open>
  The chain of \<^verbatim>\<open>if\<close> / \<^verbatim>\<open>else if\<close> of lines 161 to 205, in the source's order. Only
  the \<^verbatim>\<open>"OK"\<close> branch reads landmarks (4 and 8), after its four state tests.
\<close>

definition recognized_hand_gesture ::
  "NormalizedLandmark list \<Rightarrow> FingerState \<Rightarrow> FingerState \<Rightarrow> FingerState \<Rightarrow> FingerState \<Rightarrow>
     FingerState \<Rightarrow> string option" where
  "recognized_hand_gesture landmarkList thumb first second third fourth =
     (if thumb = OPEN \<and> first = OPEN \<and> second = OPEN \<and> third = OPEN \<and> fourth = OPEN
        then Some ''FIVE''
      else if thumb = CLOSE \<and> first = OPEN \<and> second = OPEN \<and> third = OPEN \<and> fourth = OPEN
        then Some ''FOUR''
      else if thumb = OPEN \<and> first = OPEN \<and> second = OPEN \<and> third = CLOSE \<and> fourth = CLOSE
        then Some ''TREE''
      else if thumb = OPEN \<and> first = OPEN \<and> second = CLOSE \<and> third = CLOSE \<and> fourth = CLOSE
        then Some ''TWO''
      else if thumb = CLOSE \<and> first = OPEN \<and> second = CLOSE \<and> third = CLOSE \<and> fourth = CLOSE
        then Some ''ONE''
      else if thumb = CLOSE \<and> first = OPEN \<and> second = OPEN \<and> third = CLOSE \<and> fourth = CLOSE
        then Some ''YEAH''
      else if thumb = CLOSE \<and> first = OPEN \<and> second = CLOSE \<and> third = CLOSE \<and> fourth = OPEN
        then Some ''ROCK''
      else if thumb = OPEN \<and> first = OPEN \<and> second = CLOSE \<and> third = CLOSE \<and> fourth = OPEN
        then Some ''SPIDERMAN''
      else if thumb = CLOSE \<and> first = CLOSE \<and> second = CLOSE \<and> third = CLOSE \<and> fourth = CLOSE
        then Some ''FIST''
      else do {
        is_ok \<leftarrow> and_then (first = CLOSE \<and> second = OPEN \<and> third = OPEN \<and> fourth = OPEN)
                   (do { point1 \<leftarrow> landmark landmarkList 4;
                         point2 \<leftarrow> landmark landmarkList 8;
                         Some (isThumbNearFirstFinger point1 point2) });
        Some (if is_ok then ''OK'' else ''___'')
      })"

text \<open>Lines 101 to 205: the five finger states, then the gesture.\<close>

definition classify_hand :: "NormalizedLandmark list \<Rightarrow> string option" where
  "classify_hand landmarkList =
     do {
       thumb \<leftarrow> thumbState landmarkList;
       first \<leftarrow> firstFingerState landmarkList;
       second \<leftarrow> secondFingerState landmarkList;
       third \<leftarrow> thirdFingerState landmarkList;
       fourth \<leftarrow> fourthFingerState landmarkList;
       recognized_hand_gesture landmarkList thumb first second third fourth
     }"

text \<open>
  \<^verbatim>\<open>HandGestureRecognitionCalculator::Process\<close>: the rectangle test of line 86 returns
  before the landmark list is looked at.
\<close>

definition HandGestureRecognitionCalculator_Process ::
  "NormalizedRect \<Rightarrow> NormalizedLandmark list \<Rightarrow> failure + string" where
  "HandGestureRecognitionCalculator_Process rect landmarkList =
     (if width rect < 0.01 \<or> height rect < 0.01 then Inr ''___''
      else if \<not> 0 < length landmarkList then Inl InputLandmarkVectorEmpty
      else case classify_hand landmarkList of
             None \<Rightarrow> Inl LandmarkIndexOutOfRange
           | Some gesture \<Rightarrow> Inr gesture)"

section \<open>HandMouvementRecognitionCalculator\<close>

text \<open>
  \<^verbatim>\<open>std::atan2\<close> on reals: the angle in \<open>(-\<pi>, \<pi>]\<close> of the point \<open>(x, y)\<close>, and 0 at
  the origin.
\<close>

definition atan2 :: "real \<Rightarrow> real \<Rightarrow> real" where
  "atan2 y x =
     (if 0 < x then arctan (y / x)
      else if x < 0 then (if 0 \<le> y then arctan (y / x) + pi else arctan (y / x) - pi)
      else if 0 < y then pi / 2
      else if y < 0 then - (pi / 2)
      else 0)"

definition getAngleABC :: "real \<Rightarrow> real \<Rightarrow> real \<Rightarrow> real \<Rightarrow> real \<Rightarrow> real \<Rightarrow> real" where
  "getAngleABC a_x a_y b_x b_y c_x c_y =
     (let ab_x = b_x - a_x;
          ab_y = b_y - a_y;
          cb_x = b_x - c_x;
          cb_y = b_y - c_y;
          dot = ab_x * cb_x + ab_y * cb_y;
          cross = ab_x * cb_y - ab_y * cb_x;
          alpha = atan2 cross dot
      in alpha)"

definition radianToDegree :: "real \<Rightarrow> int" where
  "radianToDegree radian = \<lfloor>radian * 180 / pi + 0.5\<rfloor>"

text \<open>
  The calculator's fields, and the frame counter
  \<^verbatim>\<open>cc->GetCounter("HandMouvementRecognitionCalculator")\<close>, which the framework keeps
  for the calculator. \<^verbatim>\<open>previous_rectangle_width\<close> is declared and never used.
\<close>

record HandMouvementRecognitionCalculator =
  previous_x_center :: real
  previous_y_center :: real
  previous_angle :: real
  previous_rectangle_width :: real
  previous_rectangle_height :: real
  frameCounter :: int

record recognized_hand_mouvement =
  scrolling :: string
  zooming :: string
  sliding :: string

text \<open>
  Lines 131 to 163. \<^verbatim>\<open>if (this->previous_x_center)\<close> tests a \<^verbatim>\<open>float\<close> as a
  condition: it holds when the value is not zero.
\<close>

definition scrolling_feature :: "HandMouvementRecognitionCalculator \<Rightarrow> NormalizedRect \<Rightarrow> string" where
  "scrolling_feature this rect =
     (if previous_x_center this \<noteq> 0 then
        let mouvementDistance = get_Euclidean_DistanceAB (x_center rect) (y_center rect)
                                  (previous_x_center this) (previous_y_center this);
            mouvementDistanceFactor = 0.02;
            mouvementDistanceThreshold = mouvementDistanceFactor * height rect
        in if mouvementDistance > mouvementDistanceThreshold then
             let angle = real_of_int (radianToDegree
                           (getAngleABC (x_center rect) (y_center rect)
                              (previous_x_center this) (previous_y_center this)
                              (previous_x_center this + 0.1) (previous_y_center this)))
             in if angle \<ge> - 45 \<and> angle < 45 then ''Scrolling right''
                else if angle \<ge> 45 \<and> angle < 135 then ''Scrolling up''
                else if angle \<ge> 135 \<or> angle < - 135 then ''Scrolling left''
                else if angle \<ge> - 135 \<and> angle < - 45 then ''Scrolling down''
                else ''___''
           else ''___''
      else ''___'')"

text \<open>Lines 167 to 183.\<close>

definition zooming_feature :: "HandMouvementRecognitionCalculator \<Rightarrow> NormalizedRect \<Rightarrow> string" where
  "zooming_feature this rect =
     (if previous_rectangle_height this \<noteq> 0 then
        let heightDifferenceFactor = 0.03;
            heightDifferenceThreshold = height rect * heightDifferenceFactor
        in if height rect < previous_rectangle_height this - heightDifferenceThreshold
             then ''Zoom out''
           else if height rect > previous_rectangle_height this + heightDifferenceThreshold
             then ''Zoom in''
           else ''___''
      else ''___'')"

text \<open>
  Lines 186 to 214: the label and the calculator after the block, or \<open>None\<close> when
  landmark 0 or 9 is read out of range.
\<close>

definition sliding_feature ::
  "HandMouvementRecognitionCalculator \<Rightarrow> NormalizedLandmark list \<Rightarrow>
     (string \<times> HandMouvementRecognitionCalculator) option" where
  "sliding_feature this landmarkList =
     (if frameCounter this mod 2 = 0 then
        do {
          wrist \<leftarrow> landmark landmarkList 0;
          MCP_of_second_finger \<leftarrow> landmark landmarkList 9;
          let ang_in_radian = getAngleABC (landmark_x MCP_of_second_finger)
                                (landmark_y MCP_of_second_finger)
                                (landmark_x wrist) (landmark_y wrist)
                                (landmark_x wrist + 0.1) (landmark_y wrist);
              ang_in_degree = radianToDegree ang_in_radian;
              slide =
                (if previous_angle this \<noteq> 0 then
                   let angleDifferenceTreshold = 12
                   in if previous_angle this \<ge> 80 \<and> previous_angle this \<le> 100 then
                        if real_of_int ang_in_degree > previous_angle this + angleDifferenceTreshold
                          then ''Slide left''
                        else if real_of_int ang_in_degree < previous_angle this - angleDifferenceTreshold
                          then ''Slide right''
                        else ''___''
                      else ''___''
                 else ''___'')
          in Some (slide, this\<lparr>previous_angle := real_of_int ang_in_degree\<rparr>)
        }
      else Some (''___'', this))"

text \<open>
  \<^verbatim>\<open>HandMouvementRecognitionCalculator::Process\<close>. The counter is incremented first
  (line 112), so the calculator is returned in every case, next to the status or the
  three labels.
\<close>

definition HandMouvementRecognitionCalculator_Process ::
  "HandMouvementRecognitionCalculator \<Rightarrow> NormalizedRect \<Rightarrow> NormalizedLandmark list \<Rightarrow>
     (failure + recognized_hand_mouvement) \<times> HandMouvementRecognitionCalculator" where
  "HandMouvementRecognitionCalculator_Process this0 rect landmarkList =
     (let this1 = this0\<lparr>frameCounter := frameCounter this0 + 1\<rparr>
      in if \<not> 0 < length landmarkList then (Inl InputLandmarkVectorEmpty, this1)
         else
           let scroll = scrolling_feature this1 rect;
               this2 = this1\<lparr>previous_x_center := x_center rect,
                              previous_y_center := y_center rect\<rparr>;
               zoom = zooming_feature this2 rect;
               this3 = this2\<lparr>previous_rectangle_height := height rect\<rparr>
           in case sliding_feature this3 landmarkList of
                None \<Rightarrow> (Inl LandmarkIndexOutOfRange, this3)
              | Some (slide, this4) \<Rightarrow>
                  (Inr \<lparr>scrolling = scroll, zooming = zoom, sliding = slide\<rparr>, this4))"

text \<open>
  The angle of lines 189 to 194, in degrees: at the wrist (landmark 0), from the ray to
  landmark 9 to the horizontal ray.
\<close>

definition wrist_angle :: "NormalizedLandmark list \<Rightarrow> int" where
  "wrist_angle landmarkList =
     (let wrist = landmarkList ! 0; MCP_of_second_finger = landmarkList ! 9
      in radianToDegree
           (getAngleABC (landmark_x MCP_of_second_finger) (landmark_y MCP_of_second_finger)
              (landmark_x wrist) (landmark_y wrist)
              (landmark_x wrist + 0.1) (landmark_y wrist)))"

text \<open>
  Modelled from the spec: the calculator of a fresh session, "no history". The class
  declares its fields with no initialiser and no constructor, and the framework code that
  creates the calculator and its counter is not part of the repository. The code's only
  test for a stored value is its truth value as a condition, so "unset" is the value 0;
  the counter of a new graph starts at 0.
\<close>

definition fresh_session :: HandMouvementRecognitionCalculator where
  "fresh_session =
     \<lparr>previous_x_center = 0, previous_y_center = 0, previous_angle = 0,
      previous_rectangle_width = 0, previous_rectangle_height = 0, frameCounter = 0\<rparr>"


definition history_all_set :: "HandMouvementRecognitionCalculator \<Rightarrow> bool" where
  "history_all_set this \<longleftrightarrow>
     previous_x_center this \<noteq> 0 \<and> previous_rectangle_height this \<noteq> 0 \<and> previous_angle this \<noteq> 0"


section \<open>The specification's finger rule\<close>




text \<open>The gesture names of the specification's section 4.3, and the placeholder.\<close>

definition spec_vocabulary :: "string list" where
  "spec_vocabulary =
     [''FIVE'', ''FOUR'', ''THREE'', ''TWO'', ''ONE'', ''YEAH'', ''ROCK'', ''SPIDERMAN'',
      ''FIST'', ''OK'', ''___'']"

section \<open>Concrete frames\<close>

definition hand_of :: "(real \<times> real) list \<Rightarrow> NormalizedLandmark list" where
  "hand_of ps = map (\<lambda>(a, b). \<lparr>landmark_x = a, landmark_y = b\<rparr>) ps"

text \<open>
  A hand of 21 landmarks with thumb, index and middle finger stretched, ring finger and
  little finger folded, and the wrist (landmark 0) straight below landmark 9.
\<close>

definition pose_three :: "NormalizedLandmark list" where
  "pose_three = hand_of
     [(0.5, 0.9), (0.55, 0.8), (0.5, 0.7), (0.4, 0.6), (0.3, 0.5),
      (0.5, 0.6), (0.5, 0.5), (0.5, 0.4), (0.5, 0.3),
      (0.5, 0.6), (0.5, 0.5), (0.5, 0.4), (0.5, 0.3),
      (0.6, 0.6), (0.6, 0.5), (0.6, 0.6), (0.6, 0.7),
      (0.7, 0.6), (0.7, 0.5), (0.7, 0.6), (0.7, 0.7)]"

text \<open>\<open>n\<close> landmarks, all at the middle of the image.\<close>

definition flat_hand :: "nat \<Rightarrow> NormalizedLandmark list" where
  "flat_hand n = replicate n \<lparr>landmark_x = 0.5, landmark_y = 0.5\<rparr>"

definition hand_rect :: NormalizedRect where
  "hand_rect = \<lparr>x_center = 0.5, y_center = 0.5, width = 0.2, height = 0.2\<rparr>"

definition tiny_rect :: NormalizedRect where
  "tiny_rect = \<lparr>x_center = 0.5, y_center = 0.5, width = 0.005, height = 0.2\<rparr>"

text \<open>Landmark 0 at the middle of the image and landmark 9 at \<open>(x9, y9)\<close>.\<close>

definition wrist_hand :: "real \<Rightarrow> real \<Rightarrow> NormalizedLandmark list" where
  "wrist_hand x9 y9 = (flat_hand 21)[9 := \<lparr>landmark_x = x9, landmark_y = y9\<rparr>]"

definition rect_at :: "real \<Rightarrow> real \<Rightarrow> real \<Rightarrow> NormalizedRect" where
  "rect_at cx cy h = \<lparr>x_center = cx, y_center = cy, width = 0.2, height = h\<rparr>"

text \<open>A calculator by its fields, and the three labels of one frame.\<close>

definition session :: "real \<Rightarrow> real \<Rightarrow> real \<Rightarrow> real \<Rightarrow> int \<Rightarrow> HandMouvementRecognitionCalculator" where
  "session cx cy h a n =
     \<lparr>previous_x_center = cx, previous_y_center = cy, previous_angle = a,
      previous_rectangle_width = 0, previous_rectangle_height = h, frameCounter = n\<rparr>"

definition labels :: "string \<Rightarrow> string \<Rightarrow> string \<Rightarrow> recognized_hand_mouvement" where
  "labels a b c = \<lparr>scrolling = a, zooming = b, sliding = c\<rparr>"

section \<open>Auxiliary facts\<close>

lemmas gesture_defs =
  HandGestureRecognitionCalculator_Process_def classify_hand_def recognized_hand_gesture_def
  thumbState_def firstFingerState_def secondFingerState_def thirdFingerState_def
  fourthFingerState_def fingerState_def and_then_def threshold_def closeFingerThreshold_def
  landmark_x_at_def landmark_y_at_def landmark_def




lemma distance_same_y [simp]: "get_Euclidean_DistanceAB a c b c = \<bar>a - b\<bar>"
  by (simp add: get_Euclidean_DistanceAB_def)

lemma distance_same_x [simp]: "get_Euclidean_DistanceAB c a c b = \<bar>a - b\<bar>"
  by (simp add: get_Euclidean_DistanceAB_def)

lemma radianToDegree_values [simp]:
  "radianToDegree 0 = 0"
  "radianToDegree pi = 180"
  "radianToDegree (pi / 2) = 90"
  "radianToDegree (- (pi / 2)) = - 90"
  by (simp_all add: radianToDegree_def)

lemmas mouvement_defs =
  HandMouvementRecognitionCalculator_Process_def scrolling_feature_def zooming_feature_def
  sliding_feature_def landmark_def getAngleABC_def atan2_def Let_def

lemmas frame_defs =
  mouvement_defs session_def labels_def rect_at_def flat_hand_def wrist_hand_def
  fresh_session_def hand_rect_def pose_three_def hand_of_def




lemma Process_succeeds:
  assumes "HandMouvementRecognitionCalculator_Process this rect landmarkList = (Inr out, this')"
  shows "scrolling out = scrolling_feature (this\<lparr>frameCounter := frameCounter this + 1\<rparr>) rect"
    and "zooming out = zooming_feature
           (this\<lparr>frameCounter := frameCounter this + 1, previous_x_center := x_center rect,
                  previous_y_center := y_center rect\<rparr>) rect"
    and "sliding_feature
           (this\<lparr>frameCounter := frameCounter this + 1, previous_x_center := x_center rect,
                  previous_y_center := y_center rect, previous_rectangle_height := height rect\<rparr>)
           landmarkList = Some (sliding out, this')"
  using assms
  by (auto simp: HandMouvementRecognitionCalculator_Process_def Let_def
        split: if_splits option.splits prod.splits)

lemma sliding_feature_odd:
  assumes "sliding_feature this landmarkList = Some (slide, this')" and "odd (frameCounter this)"
  shows "slide = ''___''" and "this' = this"
  using assms by (simp_all add: sliding_feature_def even_iff_mod_2_eq_zero)

lemma sliding_feature_even:
  assumes "sliding_feature this landmarkList = Some (slide, this')" and "even (frameCounter this)"
  shows "9 < length landmarkList"
    and "this' = this\<lparr>previous_angle := real_of_int (wrist_angle landmarkList)\<rparr>"
    and "slide =
          (if previous_angle this \<noteq> 0 \<and> 80 \<le> previous_angle this \<and> previous_angle this \<le> 100
           then if previous_angle this + 12 < real_of_int (wrist_angle landmarkList)
                  then ''Slide left''
                else if real_of_int (wrist_angle landmarkList) < previous_angle this - 12
                  then ''Slide right''
                else ''___''
           else ''___'')"
  using assms
  by (auto simp: sliding_feature_def landmark_def wrist_angle_def Let_def even_iff_mod_2_eq_zero
        split: if_splits)


lemma fresh_run:
  "HandMouvementRecognitionCalculator_Process fresh_session hand_rect pose_three =
     (Inr (labels ''___'' ''___'' ''___''), session 0.5 0.5 0.2 0 1)"
  by (simp add: frame_defs)


section \<open>The presence gate\<close>

text \<open>
  Claim C1. When the rectangle's width or its height is below 0.01, the calculator
  emits the placeholder \<^verbatim>\<open>"___"\<close> and succeeds, whatever the landmark list is (empty,
  too short or well formed): no finger state and no gesture is computed.
\<close>

theorem presence_gate_rejects:
  "width rect < 0.01 \<or> height rect < 0.01 \<Longrightarrow>
     HandGestureRecognitionCalculator_Process rect landmarkList = Inr ''___''"
  by (simp add: HandGestureRecognitionCalculator_Process_def)

theorem presence_gate_rejects_witness:
  "(width \<lparr>x_center = 0.5, y_center = 0.5, width = 0.005, height = 0.2\<rparr> < 0.01
      \<or> height \<lparr>x_center = 0.5, y_center = 0.5, width = 0.005, height = 0.2\<rparr> < 0.01)
   \<and> HandGestureRecognitionCalculator_Process
        \<lparr>x_center = 0.5, y_center = 0.5, width = 0.005, height = 0.2\<rparr> [] = Inr ''___''"
  using presence_gate_rejects
    [of "\<lparr>x_center = 0.5, y_center = 0.5, width = 0.005, height = 0.2\<rparr>" "[]"]
  by simp

section \<open>Finger states\<close>



section \<open>Gesture names\<close>

text \<open>
  Claim C3. With thumb, index and middle finger \<open>OPEN\<close> and ring and little finger
  \<open>CLOSE\<close> the specification names the gesture \<^verbatim>\<open>"THREE"\<close>. On the frame \<open>pose_three\<close>,
  which has these five states, the calculator emits \<^verbatim>\<open>"TREE"\<close>, a string that is not in
  the specification's vocabulary.
\<close>

theorem three_is_spelled_TREE:
  "HandGestureRecognitionCalculator_Process hand_rect pose_three = Inr ''TREE'' \<and>
   ''TREE'' \<notin> set spec_vocabulary"
  by (simp add: gesture_defs pose_three_def hand_of_def hand_rect_def spec_vocabulary_def)

section \<open>Failing frames\<close>

text \<open>
  Claim C4, as stated, fails: a frame fails with the surfaced error if and only if its
  landmark count is below 21 and the presence gate lets it pass, and never when the
  gate rejects it. Twenty landmarks at one point pass the gate and are classified
  without any failure (landmark 20 is never read, since landmarks 18 and 19 do not
  differ by more than 0.01); and the movement calculator, which has no presence gate,
  fails on an empty landmark list although the rectangle is below the gate's bound.
\<close>

theorem surfaced_failure_counterexample:
  "length (flat_hand 20) < 21 \<and>
   \<not> (width hand_rect < 0.01 \<or> height hand_rect < 0.01) \<and>
   HandGestureRecognitionCalculator_Process hand_rect (flat_hand 20) = Inr ''___'' \<and>
   width tiny_rect < 0.01 \<and>
   fst (HandMouvementRecognitionCalculator_Process fresh_session tiny_rect []) =
     Inl InputLandmarkVectorEmpty"
  by (simp add: gesture_defs flat_hand_def hand_rect_def tiny_rect_def
        HandMouvementRecognitionCalculator_Process_def)

text \<open>
  Claim C4, amended. The gesture calculator returns the error status if and only if
  the landmark list is empty and the presence gate lets the frame pass; when the gate
  rejects the frame it succeeds with the placeholder whatever the landmark list is. The
  movement calculator returns the error status if and only if the landmark list is
  empty, whatever the rectangle is.
\<close>

theorem surfaced_failure_is_empty_list:
  "(HandGestureRecognitionCalculator_Process rect landmarkList = Inl InputLandmarkVectorEmpty
      \<longleftrightarrow> \<not> (width rect < 0.01 \<or> height rect < 0.01) \<and> landmarkList = []) \<and>
   (width rect < 0.01 \<or> height rect < 0.01 \<longrightarrow>
      HandGestureRecognitionCalculator_Process rect landmarkList = Inr ''___'') \<and>
   (fst (HandMouvementRecognitionCalculator_Process this rect landmarkList) =
      Inl InputLandmarkVectorEmpty \<longleftrightarrow> landmarkList = [])"
  by (auto simp: HandGestureRecognitionCalculator_Process_def
        HandMouvementRecognitionCalculator_Process_def Let_def
        split: option.splits prod.splits)

theorem surfaced_failure_is_empty_list_witness:
  "HandGestureRecognitionCalculator_Process hand_rect [] = Inl InputLandmarkVectorEmpty \<and>
   width tiny_rect < 0.01 \<and>
   HandGestureRecognitionCalculator_Process tiny_rect [] = Inr ''___'' \<and>
   fst (HandMouvementRecognitionCalculator_Process fresh_session hand_rect []) =
     Inl InputLandmarkVectorEmpty"
  using surfaced_failure_is_empty_list [of hand_rect "[]" fresh_session]
    surfaced_failure_is_empty_list [of tiny_rect "[]" fresh_session]
  by (simp add: hand_rect_def tiny_rect_def)

section \<open>Movement history\<close>




section \<open>The first frame\<close>

text \<open>
  Claim C6, as stated, fails: after the first frame of a fresh session all history
  fields are populated. On the frame \<open>hand_rect\<close>, \<open>pose_three\<close>, whose wrist angle is 90
  degrees, the three labels are the placeholder, and the previous wrist angle is still
  0 afterwards.
\<close>

theorem first_frame_counterexample:
  "fst (HandMouvementRecognitionCalculator_Process fresh_session hand_rect pose_three) =
     Inr (labels ''___'' ''___'' ''___'') \<and>
   wrist_angle pose_three = 90 \<and>
   previous_angle (snd (HandMouvementRecognitionCalculator_Process fresh_session hand_rect pose_three)) = 0 \<and>
   \<not> history_all_set (snd (HandMouvementRecognitionCalculator_Process fresh_session hand_rect pose_three))"
  by (simp add: frame_defs history_all_set_def wrist_angle_def)

text \<open>
  Claim C6, amended. On the first processed frame of a fresh session the scroll, zoom
  and slide labels are the placeholder; afterwards the previous center and the
  previous rectangle height hold the values of the frame's rectangle, the counter is 1,
  and the previous wrist angle is still unset.
\<close>

theorem first_frame:
  assumes "HandMouvementRecognitionCalculator_Process fresh_session rect landmarkList = (Inr out, this')"
  shows "scrolling out = ''___'' \<and> zooming out = ''___'' \<and> sliding out = ''___'' \<and>
         previous_x_center this' = x_center rect \<and>
         previous_y_center this' = y_center rect \<and>
         previous_rectangle_height this' = height rect \<and>
         previous_angle this' = 0 \<and>
         frameCounter this' = 1"
  using assms
  by (auto simp: HandMouvementRecognitionCalculator_Process_def scrolling_feature_def
        zooming_feature_def sliding_feature_def fresh_session_def Let_def
        split: if_splits)

theorem first_frame_witness:
  "HandMouvementRecognitionCalculator_Process fresh_session hand_rect pose_three =
     (Inr (labels ''___'' ''___'' ''___''), session 0.5 0.5 0.2 0 1) \<and>
   previous_angle (session 0.5 0.5 0.2 0 1) = 0 \<and>
   frameCounter (session 0.5 0.5 0.2 0 1) = 1"
  using fresh_run first_frame [OF fresh_run]
  by (simp add: session_def)

section \<open>Scrolling\<close>



section \<open>Zooming\<close>



section \<open>Sliding\<close>



section \<open>Zero as absent history\<close>

text \<open>
  Claim C10. On every processed frame: when the stored previous x-center is 0 the scroll
  label is the placeholder, whatever the previous y-center is (and when the previous
  x-center is not 0 and the displacement exceeds the threshold, a direction is emitted,
  whatever the previous y-center is); when the stored previous rectangle height is 0 the
  zoom label is the placeholder; when the stored previous wrist angle is 0 the slide
  label is the placeholder.
\<close>

theorem zero_is_no_history:
  assumes "HandMouvementRecognitionCalculator_Process this rect landmarkList = (Inr out, this')"
  shows "(previous_x_center this = 0 \<longrightarrow> scrolling out = ''___'') \<and>
         (previous_x_center this \<noteq> 0 \<and>
            0.02 * height rect < get_Euclidean_DistanceAB (x_center rect) (y_center rect)
                                   (previous_x_center this) (previous_y_center this) \<longrightarrow>
            scrolling out \<noteq> ''___'') \<and>
         (previous_rectangle_height this = 0 \<longrightarrow> zooming out = ''___'') \<and>
         (previous_angle this = 0 \<longrightarrow> sliding out = ''___'')"
proof -
  let ?this3 = "this\<lparr>frameCounter := frameCounter this + 1, previous_x_center := x_center rect,
                  previous_y_center := y_center rect, previous_rectangle_height := height rect\<rparr>"
  have s: "sliding_feature ?this3 landmarkList = Some (sliding out, this')"
    by (rule Process_succeeds(3) [OF assms])
  have slide: "sliding out = ''___''" if "previous_angle this = 0"
    using sliding_feature_odd(1) [OF s] sliding_feature_even(3) [OF s] that
    by (cases "even (frameCounter ?this3)") simp_all
  have scroll: "scrolling out = scrolling_feature (this\<lparr>frameCounter := frameCounter this + 1\<rparr>) rect"
    by (rule Process_succeeds(1) [OF assms])
  have zoom: "zooming out = zooming_feature
           (this\<lparr>frameCounter := frameCounter this + 1, previous_x_center := x_center rect,
                  previous_y_center := y_center rect\<rparr>) rect"
    by (rule Process_succeeds(2) [OF assms])
  show ?thesis
    using slide unfolding scroll zoom
    by (simp add: scrolling_feature_def zooming_feature_def Let_def)
qed

theorem zero_is_no_history_witness:
  "previous_x_center (session 0 0.5 0 0 1) = 0 \<and>
   previous_rectangle_height (session 0 0.5 0 0 1) = 0 \<and>
   previous_angle (session 0 0.5 0 0 1) = 0 \<and>
   HandMouvementRecognitionCalculator_Process (session 0 0.5 0 0 1) hand_rect (wrist_hand 0.2 0.5) =
     (Inr (labels ''___'' ''___'' ''___''), session 0.5 0.5 0.2 180 2) \<and>
   HandMouvementRecognitionCalculator_Process (session 0.5 0 0.2 90 2) (rect_at 0.6 0 0.2) (flat_hand 21) =
     (Inr (labels ''Scrolling right'' ''___'' ''___''), session 0.6 0 0.2 90 3)"
proof -
  have zero: "HandMouvementRecognitionCalculator_Process (session 0 0.5 0 0 1) hand_rect (wrist_hand 0.2 0.5) =
     (Inr (labels ''___'' ''___'' ''___''), session 0.5 0.5 0.2 180 2)"
    by (simp add: frame_defs)
  have y_zero: "HandMouvementRecognitionCalculator_Process (session 0.5 0 0.2 90 2) (rect_at 0.6 0 0.2) (flat_hand 21) =
     (Inr (labels ''Scrolling right'' ''___'' ''___''), session 0.6 0 0.2 90 3)"
    by (simp add: frame_defs)
  show ?thesis
    using zero y_zero zero_is_no_history [OF zero] zero_is_no_history [OF y_zero]
    by (simp add: session_def)
qed

end
